theory Spec2Isabelle
  imports Main
begin

section \<open>Python values, exceptions and strings\<close>

text \<open>
  A shallow embedding of \<^verbatim>\<open>src/prefect/environments.py\<close>. Python \<^verbatim>\<open>bytes\<close> and \<^verbatim>\<open>str\<close>
  are both lists of characters; an exception is a value of \<open>error\<close>, and a function that may
  raise returns \<open>error + 'a\<close> with \<open>Inl\<close> for the exception.
\<close>

type_synonym bytes = string

datatype error =
    ValueError string
  | TypeError string
  | InvalidToken
  | FileNotFoundError string
  | SameFileError string
  | IsADirectoryError string
  | DaemonError string
  | ExternalError string

text \<open>
  The source raises \<^verbatim>\<open>ValueError\<close> in four places. The specification names them
  \<^verbatim>\<open>InvalidKeyError\<close>, \<^verbatim>\<open>NotBuiltError\<close>, \<^verbatim>\<open>PathConstraintError\<close> and \<^verbatim>\<open>FileConflictError\<close>;
  here each is the \<open>ValueError\<close> with the message of the source. \<^verbatim>\<open>InvalidPayloadError\<close> is
  the \<open>InvalidToken\<close> that \<^verbatim>\<open>Fernet.decrypt\<close> raises.
\<close>

definition newline :: char where
  "newline = CHR 0x0A"

definition backslash :: char where
  "backslash = CHR 0x5C"

definition dquote :: char where
  "dquote = CHR 0x22"

definition InvalidKeyError :: error where
  "InvalidKeyError = ValueError ''Invalid encryption key.''"

definition NotBuiltError :: error where
  "NotBuiltError = ValueError ''No serialized flow found! Has this environment been built?''"

fun join_str :: "string \<Rightarrow> string list \<Rightarrow> string" where
  "join_str sep [] = []"
| "join_str sep [x] = x"
| "join_str sep (x # y # ys) = x @ sep @ join_str sep (y # ys)"

definition PathConstraintError :: "string list \<Rightarrow> error" where
  "PathConstraintError not_absolute =
     ValueError (''Provided paths '' @ join_str '', '' not_absolute @
       '' are not absolute file paths, please provide absolute paths only.'')"

definition FileConflictError :: "string \<Rightarrow> string \<Rightarrow> error" where
  "FileConflictError full_fname directory =
     ValueError (''File '' @ full_fname @ '' already exists in '' @ directory)"

text \<open>\<^verbatim>\<open>"{}".format(x)\<close> for an optional string: \<^verbatim>\<open>None\<close> is rendered as the text \<^verbatim>\<open>None\<close>.\<close>

definition format_opt :: "string option \<Rightarrow> string" where
  "format_opt x = (case x of None \<Rightarrow> ''None'' | Some s \<Rightarrow> s)"

text \<open>\<^verbatim>\<open>s.split("\n")\<close> and \<^verbatim>\<open>s.strip("\n")\<close>.\<close>

fun split_newline :: "string \<Rightarrow> string list" where
  "split_newline [] = [[]]"
| "split_newline (c # cs) =
     (if c = newline then [] # split_newline cs
      else (case split_newline cs of
              [] \<Rightarrow> [[c]]
            | l # ls \<Rightarrow> (c # l) # ls))"

definition strip_newline :: "string \<Rightarrow> string" where
  "strip_newline s =
     rev (dropWhile (\<lambda>c. c = newline) (rev (dropWhile (\<lambda>c. c = newline) s)))"

section \<open>\<^verbatim>\<open>os.path\<close> on POSIX\<close>

definition isabs :: "string \<Rightarrow> bool" where
  "isabs p = (case p of [] \<Rightarrow> False | c # _ \<Rightarrow> c = CHR ''/'')"

definition basename :: "string \<Rightarrow> string" where
  "basename p = rev (takeWhile (\<lambda>c. c \<noteq> CHR ''/'') (rev p))"

definition path_join :: "string \<Rightarrow> string \<Rightarrow> string" where
  "path_join a b =
     (if isabs b then b
      else if a = [] \<or> last a = CHR ''/'' then a @ b
      else a @ ''/'' @ b)"

section \<open>Files on disk, \<^verbatim>\<open>filecmp.cmp\<close> and \<^verbatim>\<open>shutil.copy2\<close>\<close>

text \<open>
  The disk maps a path to what is there: a regular file, with its bytes and its
  modification time, or a directory. Links, special files and two spellings of one path are
  outside the model, and so is the absence of the directory a file is written into.
\<close>

record regfile =
  content :: bytes
  mtime :: nat

datatype node = Regular regfile | Directory

type_synonym disk = "string \<rightharpoonup> node"

text \<open>
  \<^verbatim>\<open>filecmp.cmp(f1, f2)\<close> is called with its default \<^verbatim>\<open>shallow=True\<close>. It takes the
  \<^verbatim>\<open>os.stat\<close> of both paths (which raises for a path that does not exist) and answers
  \<^verbatim>\<open>False\<close> unless both are regular files. Two regular files with the same signature (size
  and modification time) are taken to be equal without being read, and files of different
  sizes to differ. Otherwise the answer comes from the module's cache, keyed by the two
  paths and the two signatures; only when the cache has nothing for the key are the bytes
  compared, and the outcome stored, after the cache was emptied if it held more than 100
  entries.
\<close>

definition stat_sig :: "regfile \<Rightarrow> nat \<times> nat" where
  "stat_sig f = (length (content f), mtime f)"

type_synonym cmp_key = "string \<times> string \<times> (nat \<times> nat) \<times> (nat \<times> nat)"

type_synonym cmp_cache = "(cmp_key \<times> bool) list"

definition filecmp_cmp ::
  "disk \<Rightarrow> cmp_cache \<Rightarrow> string \<Rightarrow> string \<Rightarrow> (error + bool) \<times> cmp_cache" where
  "filecmp_cmp d cache f1 f2 =
     (case d f1 of
        None \<Rightarrow> (Inl (FileNotFoundError f1), cache)
      | Some n1 \<Rightarrow>
          (case d f2 of
             None \<Rightarrow> (Inl (FileNotFoundError f2), cache)
           | Some n2 \<Rightarrow>
               (case n1 of
                  Directory \<Rightarrow> (Inr False, cache)
                | Regular a \<Rightarrow>
                    (case n2 of
                       Directory \<Rightarrow> (Inr False, cache)
                     | Regular b \<Rightarrow>
                         if stat_sig a = stat_sig b then (Inr True, cache)
                         else if length (content a) \<noteq> length (content b)
                           then (Inr False, cache)
                         else
                           (case map_of cache (f1, f2, stat_sig a, stat_sig b) of
                              Some outcome \<Rightarrow> (Inr outcome, cache)
                            | None \<Rightarrow>
                                (let outcome = (content a = content b);
                                     kept = (if length cache > 100 then [] else cache)
                                 in (Inr outcome,
                                     ((f1, f2, stat_sig a, stat_sig b), outcome) # kept)))))))"

text \<open>
  \<^verbatim>\<open>shutil.copy2(src, dst)\<close>: a \<open>dst\<close> that is a directory stands for the file of
  \<open>src\<close>'s name in it; copying a file onto itself raises, and so does a \<open>src\<close> that does not
  exist or is a directory, and a target that is a directory; otherwise the target gets the
  bytes and the modification time of \<open>src\<close>.
\<close>

definition shutil_copy2 :: "string \<Rightarrow> string \<Rightarrow> disk \<Rightarrow> error + disk" where
  "shutil_copy2 src dst d =
     (let target = (if d dst = Some Directory then path_join dst (basename src) else dst)
      in if d src \<noteq> None \<and> src = target then Inl (SameFileError src)
         else
           (case d src of
              None \<Rightarrow> Inl (FileNotFoundError src)
            | Some Directory \<Rightarrow> Inl (IsADirectoryError src)
            | Some (Regular f) \<Rightarrow>
                if d target = Some Directory then Inl (IsADirectoryError target)
                else Inr (d(target \<mapsto> Regular f))))"

text \<open>
  \<^verbatim>\<open>tempfile.TemporaryDirectory()\<close> creates a directory; leaving its \<^verbatim>\<open>with\<close> block removes
  the directory and everything below it.
\<close>

definition under_dir :: "string \<Rightarrow> string \<Rightarrow> bool" where
  "under_dir directory p = (take (length directory + 1) p = directory @ ''/'')"

definition rmtree :: "string \<Rightarrow> disk \<Rightarrow> disk" where
  "rmtree directory d = (\<lambda>p. if p = directory \<or> under_dir directory p then None else d p)"

section \<open>The descriptors\<close>

record local_env =
  encryption_key :: bytes
  serialized_flow :: "bytes option"

record container_env =
  base_image :: string
  registry_url :: string
  image_name :: "string option"
  image_tag :: "string option"
  python_dependencies :: "string list"
  env_vars :: "(string \<times> string) list"
  files :: "(string \<times> string) list"

text \<open>
  \<open>env_vars\<close> and \<open>files\<close> are dictionaries; they are association lists in insertion order,
  the order in which \<^verbatim>\<open>.items()\<close> yields them.
\<close>

section \<open>The Docker daemon and the other collaborators\<close>

text \<open>
  A call of the Docker client as the source writes it: \<^verbatim>\<open>client.pull(base_image, ...)\<close>,
  \<^verbatim>\<open>client.build(path=, tag=, forcerm=True)\<close> with its Boolean keyword arguments as given,
  \<^verbatim>\<open>client.push(name, tag=)\<close>, \<^verbatim>\<open>client.remove_image(image=, force=)\<close> and
  \<^verbatim>\<open>client.create_container(image=, command=, detach=)\<close>.
\<close>

datatype daemon_call =
    Pull string
  | Build string string "(string \<times> bool) list"
  | Push string string
  | RemoveImage string bool
  | CreateContainer string string bool

text \<open>
  A keyword argument that a build request does not pass has the client's default;
  \<^verbatim>\<open>nocache\<close> ("don't use the cache when set to True") defaults to \<^verbatim>\<open>False\<close>.
\<close>

definition build_option :: "(string \<times> bool) list \<Rightarrow> string \<Rightarrow> bool" where
  "build_option kwargs name = (case map_of kwargs name of None \<Rightarrow> False | Some b \<Rightarrow> b)"

definition caching_disabled :: "daemon_call \<Rightarrow> bool" where
  "caching_disabled c =
     (case c of Build path tag kwargs \<Rightarrow> build_option kwargs ''nocache'' | _ \<Rightarrow> True)"

record progress_event =
  status :: "string option"
  progress :: "string option"

text \<open>
  Everything the module calls and does not define is a parameter: the libraries
  (cloudpickle, Fernet, base64, uuid, tempfile, json, textwrap), the process environment, the
  serialization schema and the flow runner of the rest of the package, and the daemon. A
  daemon answer may depend on the calls made before it. Random draws are indexed by a
  counter of the world.
\<close>

record ('f, 's) ext =
  cloudpickle_dumps :: "'f \<Rightarrow> error + bytes"
  cloudpickle_loads :: "bytes \<Rightarrow> error + 'f"
  fernet_valid :: "bytes \<Rightarrow> bool"
  fernet_generate_key :: "nat \<Rightarrow> bytes"
  fernet_encrypt :: "bytes \<Rightarrow> nat \<Rightarrow> bytes \<Rightarrow> bytes"
  fernet_decrypt :: "bytes \<Rightarrow> bytes \<Rightarrow> bytes option"
  b64encode :: "bytes \<Rightarrow> bytes"
  b64decode :: "bytes \<Rightarrow> error + bytes"
  uuid4 :: "nat \<Rightarrow> string"
  mkdtemp :: "nat \<Rightarrow> string"
  utf8_decode :: "bytes \<Rightarrow> error + string"
  json_stream :: "string \<Rightarrow> error + string option"
  schema_dump :: "local_env \<Rightarrow> string"
  dedent :: "string \<Rightarrow> string"
  getenv :: "string \<Rightarrow> string option"
  flow_runner :: "'f \<Rightarrow> (string \<times> string) list \<Rightarrow> error + 's"
  docker_pull :: "daemon_call list \<Rightarrow> string \<Rightarrow> error + progress_event list"
  docker_build ::
    "daemon_call list \<Rightarrow> string \<Rightarrow> string \<Rightarrow> (string \<times> bool) list \<Rightarrow> error + bytes list"
  docker_push :: "daemon_call list \<Rightarrow> string \<Rightarrow> string \<Rightarrow> error + progress_event list"
  docker_remove_image :: "daemon_call list \<Rightarrow> string \<Rightarrow> bool \<Rightarrow> error + unit"
  docker_create_container ::
    "daemon_call list \<Rightarrow> string \<Rightarrow> string \<Rightarrow> bool \<Rightarrow> error + string"

text \<open>
  The world a call runs in: the daemon calls issued so far (oldest first), the disk, the
  cache of \<^verbatim>\<open>filecmp\<close>, the counter of random draws, the clock, what was printed and
  logged, and the heap of \<^verbatim>\<open>ContainerEnvironment\<close> objects, an object's address being its
  index.
\<close>

record world =
  daemon_calls :: "daemon_call list"
  disk :: disk
  filecmp_cache :: cmp_cache
  entropy :: nat
  clock :: nat
  stdout :: "string list"
  logging_info :: "string list"
  heap :: "container_env list"

definition issue :: "daemon_call \<Rightarrow> world \<Rightarrow> world" where
  "issue c w = w\<lparr>daemon_calls := daemon_calls w @ [c]\<rparr>"

definition print :: "string \<Rightarrow> world \<Rightarrow> world" where
  "print s w = w\<lparr>stdout := stdout w @ [s]\<rparr>"

text \<open>
  \<^verbatim>\<open>open(path, "w")\<close> raises for a directory and otherwise leaves an empty file;
  \<open>write_file\<close> is what is written through the open file by the time it is closed.
\<close>

definition open_w :: "string \<Rightarrow> world \<Rightarrow> (error + unit) \<times> world" where
  "open_w path w =
     (if disk w path = Some Directory then (Inl (IsADirectoryError path), w)
      else (Inr (),
            w\<lparr>disk := (disk w)(path \<mapsto> Regular \<lparr>content = [], mtime = clock w\<rparr>)\<rparr>))"

definition write_file :: "string \<Rightarrow> string \<Rightarrow> world \<Rightarrow> world" where
  "write_file path text w =
     w\<lparr>disk := (disk w)(path \<mapsto> Regular \<lparr>content = text, mtime = clock w\<rparr>)\<rparr>"

section \<open>\<^verbatim>\<open>LocalEnvironment\<close>\<close>

text \<open>
  \<^verbatim>\<open>LocalEnvironment.__init__\<close>: a missing key is generated, a given key is checked by
  constructing a \<^verbatim>\<open>Fernet\<close> from it.
\<close>

definition LocalEnvironment_init ::
  "('f, 's) ext \<Rightarrow> bytes option \<Rightarrow> bytes option \<Rightarrow> world \<Rightarrow> (error + local_env) \<times> world" where
  "LocalEnvironment_init E key payload w =
     (case key of
        None \<Rightarrow>
          (Inr \<lparr>encryption_key = fernet_generate_key E (entropy w), serialized_flow = payload\<rparr>,
           w\<lparr>entropy := entropy w + 1\<rparr>)
      | Some k \<Rightarrow>
          if fernet_valid E k
          then (Inr \<lparr>encryption_key = k, serialized_flow = payload\<rparr>, w)
          else (Inl InvalidKeyError, w))"

text \<open>
  \<^verbatim>\<open>Fernet(key)\<close> raises for a key that is not well formed; \<^verbatim>\<open>encrypt\<close> draws an
  initialisation vector.
\<close>

definition Fernet :: "('f, 's) ext \<Rightarrow> bytes \<Rightarrow> error + bytes" where
  "Fernet E key =
     (if fernet_valid E key then Inr key
      else Inl (ValueError ''Fernet key must be 32 url-safe base64-encoded bytes.''))"

definition serialize_flow_to_bytes ::
  "('f, 's) ext \<Rightarrow> local_env \<Rightarrow> 'f \<Rightarrow> world \<Rightarrow> (error + bytes) \<times> world" where
  "serialize_flow_to_bytes E self flow w =
     (case cloudpickle_dumps E flow of
        Inl e \<Rightarrow> (Inl e, w)
      | Inr pickled_flow \<Rightarrow>
          (case Fernet E (encryption_key self) of
             Inl e \<Rightarrow> (Inl e, w)
           | Inr f \<Rightarrow>
               (let encrypted_pickle = fernet_encrypt E f (entropy w) pickled_flow;
                    encoded_pickle = b64encode E encrypted_pickle
                in (Inr encoded_pickle, w\<lparr>entropy := entropy w + 1\<rparr>))))"

definition deserialize_flow_from_bytes ::
  "('f, 's) ext \<Rightarrow> local_env \<Rightarrow> bytes \<Rightarrow> error + 'f" where
  "deserialize_flow_from_bytes E self payload =
     (case b64decode E payload of
        Inl e \<Rightarrow> Inl e
      | Inr decoded_pickle \<Rightarrow>
          (case Fernet E (encryption_key self) of
             Inl e \<Rightarrow> Inl e
           | Inr f \<Rightarrow>
               (case fernet_decrypt E f decoded_pickle of
                  None \<Rightarrow> Inl InvalidToken
                | Some decrypted_pickle \<Rightarrow> cloudpickle_loads E decrypted_pickle)))"

definition LocalEnvironment_build ::
  "('f, 's) ext \<Rightarrow> local_env \<Rightarrow> 'f \<Rightarrow> world \<Rightarrow> (error + local_env) \<times> world" where
  "LocalEnvironment_build E self flow w =
     (case serialize_flow_to_bytes E self flow w of
        (Inl e, w1) \<Rightarrow> (Inl e, w1)
      | (Inr payload, w1) \<Rightarrow>
          LocalEnvironment_init E (Some (encryption_key self)) (Some payload) w1)"

text \<open>
  \<^verbatim>\<open>LocalEnvironment.run\<close>: \<^verbatim>\<open>not self.serialized_flow\<close> holds for \<^verbatim>\<open>None\<close> and for empty
  bytes; \<^verbatim>\<open>runner_kwargs or {}\<close> is the empty dictionary for \<^verbatim>\<open>None\<close>.
\<close>

definition LocalEnvironment_run ::
  "('f, 's) ext \<Rightarrow> local_env \<Rightarrow> (string \<times> string) list option \<Rightarrow> error + 's" where
  "LocalEnvironment_run E self runner_kwargs =
     (case serialized_flow self of
        None \<Rightarrow> Inl NotBuiltError
      | Some payload \<Rightarrow>
          if payload = [] then Inl NotBuiltError
          else
            (case deserialize_flow_from_bytes E self payload of
               Inl e \<Rightarrow> Inl e
             | Inr flow \<Rightarrow>
                 flow_runner E flow (case runner_kwargs of None \<Rightarrow> [] | Some k \<Rightarrow> k)))"

text \<open>\<^verbatim>\<open>Environment.to_file\<close>: the file is opened for writing and the schema's dump is written.\<close>

definition to_file ::
  "('f, 's) ext \<Rightarrow> local_env \<Rightarrow> string \<Rightarrow> world \<Rightarrow> (error + unit) \<times> world" where
  "to_file E self path w =
     (case open_w path w of
        (Inl e, w1) \<Rightarrow> (Inl e, w1)
      | (Inr u, w1) \<Rightarrow> (Inr (), write_file path (schema_dump E self) w1))"

section \<open>\<^verbatim>\<open>ContainerEnvironment\<close>\<close>

text \<open>
  \<^verbatim>\<open>ContainerEnvironment.__init__\<close>: \<^verbatim>\<open>x or []\<close> and \<^verbatim>\<open>x or {}\<close> replace \<^verbatim>\<open>None\<close>; the keys of
  \<open>files\<close> that are not absolute are collected, and any such key raises.
\<close>

definition ContainerEnvironment_init ::
  "string \<Rightarrow> string \<Rightarrow> string list option \<Rightarrow> string option \<Rightarrow> string option \<Rightarrow>
   (string \<times> string) list option \<Rightarrow> (string \<times> string) list option \<Rightarrow> error + container_env" where
  "ContainerEnvironment_init base registry deps name tag env fls =
     (let self = \<lparr>base_image = base, registry_url = registry,
                   image_name = name, image_tag = tag,
                   python_dependencies = (case deps of None \<Rightarrow> [] | Some l \<Rightarrow> l),
                   env_vars = (case env of None \<Rightarrow> [] | Some m \<Rightarrow> m),
                   files = (case fls of None \<Rightarrow> [] | Some m \<Rightarrow> m)\<rparr>;
          not_absolute = filter (\<lambda>file_path. \<not> isabs file_path) (map fst (files self))
      in if not_absolute \<noteq> [] then Inl (PathConstraintError not_absolute) else Inr self)"

text \<open>Creating an object: a constructor that returns puts the new object at a fresh address.\<close>

definition ContainerEnvironment_new ::
  "string \<Rightarrow> string \<Rightarrow> string list option \<Rightarrow> string option \<Rightarrow> string option \<Rightarrow>
   (string \<times> string) list option \<Rightarrow> (string \<times> string) list option \<Rightarrow> world \<Rightarrow>
   (error + nat) \<times> world" where
  "ContainerEnvironment_new base registry deps name tag env fls w =
     (case ContainerEnvironment_init base registry deps name tag env fls of
        Inl e \<Rightarrow> (Inl e, w)
      | Inr obj \<Rightarrow> (Inr (length (heap w)), w\<lparr>heap := heap w @ [obj]\<rparr>))"

text \<open>\<^verbatim>\<open>_parse_generator_output\<close>: the lines of one item, then the items.\<close>

fun parse_lines :: "('f, 's) ext \<Rightarrow> string list \<Rightarrow> world \<Rightarrow> (error + unit) \<times> world" where
  "parse_lines E [] w = (Inr (), w)"
| "parse_lines E (line # rest) w =
     (if line \<noteq> [] then
        (case json_stream E line of
           Inl e \<Rightarrow> (Inl e, w)
         | Inr output \<Rightarrow>
             (case output of
                None \<Rightarrow> parse_lines E rest w
              | Some s \<Rightarrow>
                  if s \<noteq> [] \<and> s \<noteq> [newline]
                  then parse_lines E rest (print (strip_newline s) w)
                  else parse_lines E rest w))
      else parse_lines E rest w)"

fun parse_generator_output ::
  "('f, 's) ext \<Rightarrow> bytes list \<Rightarrow> world \<Rightarrow> (error + unit) \<times> world" where
  "parse_generator_output E [] w = (Inr (), w)"
| "parse_generator_output E (item # rest) w =
     (case utf8_decode E item of
        Inl e \<Rightarrow> (Inl e, w)
      | Inr text \<Rightarrow>
          (case parse_lines E (split_newline text) w of
             (Inl e, w1) \<Rightarrow> (Inl e, w1)
           | (Inr u, w1) \<Rightarrow> parse_generator_output E rest w1))"

text \<open>The progress loop of \<^verbatim>\<open>push\<close> and \<^verbatim>\<open>pull_image\<close>.\<close>

fun print_progress :: "progress_event list \<Rightarrow> world \<Rightarrow> world" where
  "print_progress [] w = w"
| "print_progress (line # rest) w =
     (if progress line \<noteq> None \<and> progress line \<noteq> Some []
      then print_progress rest
             (print (format_opt (status line) @ '' '' @ format_opt (progress line)) w)
      else print_progress rest w)"

definition push ::
  "('f, 's) ext \<Rightarrow> nat \<Rightarrow> string \<Rightarrow> string \<Rightarrow> world \<Rightarrow> (error + unit) \<times> world" where
  "push E self name tag w =
     (let w1 = w\<lparr>logging_info := logging_info w @ [''Pushing image to the registry...'']\<rparr>;
          w2 = issue (Push name tag) w1
      in case docker_push E (daemon_calls w1) name tag of
           Inl e \<Rightarrow> (Inl e, w2)
         | Inr output \<Rightarrow> (Inr (), print_progress output w2))"

definition pull_image :: "('f, 's) ext \<Rightarrow> nat \<Rightarrow> world \<Rightarrow> (error + unit) \<times> world" where
  "pull_image E self w =
     (let base = base_image (heap w ! self);
          w1 = issue (Pull base) w
      in case docker_pull E (daemon_calls w) base of
           Inl e \<Rightarrow> (Inl e, w1)
         | Inr output \<Rightarrow> (Inr (), print_progress output w1))"

text \<open>
  One pass of the loop over \<^verbatim>\<open>self.files.items()\<close> in \<^verbatim>\<open>create_dockerfile\<close>: the test
  \<^verbatim>\<open>os.path.exists(full_fname) and filecmp.cmp(src, full_fname) is False\<close>, the raise, and the
  copy of the other branch.
\<close>

definition stage_file ::
  "string \<Rightarrow> string \<Rightarrow> disk \<Rightarrow> cmp_cache \<Rightarrow> (error + disk) \<times> cmp_cache" where
  "stage_file directory src d cache =
     (let fname = basename src;
          full_fname = path_join directory fname
      in if d full_fname \<noteq> None then
           (case filecmp_cmp d cache src full_fname of
              (Inl e, cache1) \<Rightarrow> (Inl e, cache1)
            | (Inr same, cache1) \<Rightarrow>
                if \<not> same then (Inl (FileConflictError full_fname directory), cache1)
                else (shutil_copy2 src full_fname d, cache1))
         else (shutil_copy2 src full_fname d, cache))"

fun copy_files_loop ::
  "string \<Rightarrow> (string \<times> string) list \<Rightarrow> string \<Rightarrow> disk \<Rightarrow> cmp_cache \<Rightarrow>
   (error + string) \<times> disk \<times> cmp_cache" where
  "copy_files_loop directory [] copy_files d cache = (Inr copy_files, d, cache)"
| "copy_files_loop directory ((src, dest) # rest) copy_files d cache =
     (case stage_file directory src d cache of
        (Inl e, cache1) \<Rightarrow> (Inl e, d, cache1)
      | (Inr d1, cache1) \<Rightarrow>
          copy_files_loop directory rest
            (copy_files @ ''COPY '' @ basename src @ '' '' @ dest @ [newline]) d1 cache1)"

definition render_pip_installs :: "string list \<Rightarrow> string" where
  "render_pip_installs deps =
     concat (map (\<lambda>dependency. ''RUN pip install '' @ dependency @ [newline]) deps)"

definition render_env_vars :: "(string \<times> string) list \<Rightarrow> string" where
  "render_env_vars env =
     (if env \<noteq> [] then
        ''ENV '' @
        join_str ([CHR '' '', backslash, CHR '' '', newline] @ replicate 20 (CHR '' ''))
          (map (\<lambda>(k, v). k @ ''='' @ v) env)
      else [])"

text \<open>The text given to \<^verbatim>\<open>textwrap.dedent\<close>, after \<^verbatim>\<open>format\<close> has filled it in.\<close>

definition dockerfile_template ::
  "string \<Rightarrow> string \<Rightarrow> string \<Rightarrow> string \<Rightarrow> string \<Rightarrow> string" where
  "dockerfile_template base pip_installs copy_files env access_token =
     (let ind = replicate 16 (CHR '' ''); nl = [newline] in
      ind @ ''FROM '' @ base @ nl @
      nl @
      ind @ ''RUN apt-get -qq -y update && apt-get -qq -y install --no-install-recommends --no-install-suggests git'' @ nl @
      nl @
      ind @ ''RUN pip install pip --upgrade'' @ nl @
      ind @ ''RUN pip install wheel'' @ nl @
      ind @ pip_installs @ nl @
      nl @
      ind @ ''RUN mkdir /root/.prefect/'' @ nl @
      ind @ ''COPY flow_env.prefect /root/.prefect/flow_env.prefect'' @ nl @
      ind @ copy_files @ nl @
      nl @
      ind @ ''ENV PREFECT_ENVIRONMENT_FILE='' @ [dquote] @ ''/root/.prefect/flow_env.prefect'' @ [dquote] @ nl @
      ind @ ''ENV PREFECT__USER_CONFIG_PATH='' @ [dquote] @ ''/root/.prefect/config.toml'' @ [dquote] @ nl @
      ind @ env @ nl @
      nl @
      ind @ ''RUN git clone https://'' @ access_token @ ''@github.com/PrefectHQ/prefect.git'' @ nl @
      ind @ ''RUN pip install ./prefect'' @ nl @
      ind)"

text \<open>
  \<^verbatim>\<open>create_dockerfile\<close>. Opening the Dockerfile with mode \<^verbatim>\<open>w+\<close> creates it empty before the
  files are staged; \<open>directory\<close> defaults to \<^verbatim>\<open>None\<close>, which \<^verbatim>\<open>os.path.join\<close> refuses.
\<close>

definition create_dockerfile ::
  "('f, 's) ext \<Rightarrow> nat \<Rightarrow> 'f \<Rightarrow> string option \<Rightarrow> world \<Rightarrow> (error + unit) \<times> world" where
  "create_dockerfile E self flow directory_opt w =
     (case directory_opt of
        None \<Rightarrow> (Inl (TypeError ''expected str, bytes or os.PathLike object, not NoneType''), w)
      | Some directory \<Rightarrow>
          (let obj = heap w ! self;
               dockerfile = path_join directory ''Dockerfile''
           in case open_w dockerfile w of
                (Inl e, w1) \<Rightarrow> (Inl e, w1)
              | (Inr u, w1) \<Rightarrow>
          (let pip_installs = render_pip_installs (python_dependencies obj);
               env = render_env_vars (env_vars obj)
           in case copy_files_loop directory (files obj) [] (disk w1) (filecmp_cache w1) of
                (Inl e, d, cache) \<Rightarrow> (Inl e, w1\<lparr>disk := d, filecmp_cache := cache\<rparr>)
              | (Inr copy_files, d, cache) \<Rightarrow>
                  (case LocalEnvironment_init E None None
                          (w1\<lparr>disk := d, filecmp_cache := cache\<rparr>) of
                     (Inl e, w2) \<Rightarrow> (Inl e, w2)
                   | (Inr fresh, w2) \<Rightarrow>
                       (case LocalEnvironment_build E fresh flow w2 of
                          (Inl e, w3) \<Rightarrow> (Inl e, w3)
                        | (Inr local_environment, w3) \<Rightarrow>
                            (let flow_path = path_join directory ''flow_env.prefect''
                             in case to_file E local_environment flow_path w3 of
                                  (Inl e, w4) \<Rightarrow> (Inl e, w4)
                                | (Inr u1, w4) \<Rightarrow>
                            (let file_contents =
                                   dedent E
                                     (dockerfile_template (base_image obj) pip_installs
                                        copy_files env
                                        (format_opt (getenv E ''PERSONAL_ACCESS_TOKEN'')))
                             in (Inr (), write_file dockerfile file_contents w4))))))))"

text \<open>
  \<^verbatim>\<open>ContainerEnvironment.build\<close>, the body of its \<^verbatim>\<open>with\<close> block first. A daemon call is
  recorded when it is issued, whether or not the daemon then fails it.
\<close>

definition build_in_tempdir ::
  "('f, 's) ext \<Rightarrow> nat \<Rightarrow> 'f \<Rightarrow> bool \<Rightarrow> string \<Rightarrow> string \<Rightarrow> string \<Rightarrow> world \<Rightarrow>
   (error + nat) \<times> world" where
  "build_in_tempdir E self flow push_flag name tag tempdir w =
     (case pull_image E self w of
        (Inl e, w1) \<Rightarrow> (Inl e, w1)
      | (Inr u1, w1) \<Rightarrow>
     (case create_dockerfile E self flow (Some tempdir) w1 of
        (Inl e, w2) \<Rightarrow> (Inl e, w2)
      | (Inr u2, w2) \<Rightarrow>
     (let full_name = path_join (registry_url (heap w2 ! self)) name;
          w3 = w2\<lparr>logging_info :=
                    logging_info w2 @ [''Building the flow's container environment...'']\<rparr>;
          image = full_name @ '':'' @ tag;
          w4 = issue (Build tempdir image [(''forcerm'', True)]) w3
      in
     (case docker_build E (daemon_calls w3) tempdir image [(''forcerm'', True)] of
        Inl e \<Rightarrow> (Inl e, w4)
      | Inr output \<Rightarrow>
     (case parse_generator_output E output w4 of
        (Inl e, w5) \<Rightarrow> (Inl e, w5)
      | (Inr u3, w5) \<Rightarrow>
     (case (if push_flag then push E self full_name tag w5 else (Inr (), w5)) of
        (Inl e, w6) \<Rightarrow> (Inl e, w6)
      | (Inr u4, w6) \<Rightarrow>
     (let w7 = issue (RemoveImage image True) w6 in
     (case docker_remove_image E (daemon_calls w6) image True of
        Inl e \<Rightarrow> (Inl e, w7)
      | Inr u5 \<Rightarrow>
          ContainerEnvironment_new
            (base_image (heap w7 ! self)) (registry_url (heap w7 ! self))
            (Some (python_dependencies (heap w7 ! self))) (Some name) (Some tag)
            None None w7))))))))"

definition ContainerEnvironment_build ::
  "('f, 's) ext \<Rightarrow> nat \<Rightarrow> 'f \<Rightarrow> bool \<Rightarrow> world \<Rightarrow> (error + nat) \<times> world" where
  "ContainerEnvironment_build E self flow push_flag w =
     (let name = uuid4 E (entropy w);
          tag = uuid4 E (entropy w + 1);
          tempdir = mkdtemp E (entropy w + 2);
          w0 = w\<lparr>entropy := entropy w + 3, disk := (disk w)(tempdir \<mapsto> Directory)\<rparr>
      in case build_in_tempdir E self flow push_flag name tag tempdir w0 of
           (r, w1) \<Rightarrow> (r, w1\<lparr>disk := rmtree tempdir (disk w1)\<rparr>))"

text \<open>
  \<^verbatim>\<open>ContainerEnvironment.run\<close>: \<^verbatim>\<open>os.path.join\<close> raises \<^verbatim>\<open>TypeError\<close> for a name that is
  \<^verbatim>\<open>None\<close>, \<^verbatim>\<open>format\<close> renders a tag that is \<^verbatim>\<open>None\<close>, and the container is created.
\<close>

definition join_None_error :: error where
  "join_None_error =
     TypeError (''join() argument must be str, bytes, or os.PathLike object, not '' @
                [CHR 0x27] @ ''NoneType'' @ [CHR 0x27])"

definition run_command :: string where
  "run_command = ''bash -c '' @ [dquote] @ ''prefect run $PREFECT_ENVIRONMENT_FILE'' @ [dquote]"

definition ContainerEnvironment_run ::
  "('f, 's) ext \<Rightarrow> nat \<Rightarrow> (string \<times> string) list option \<Rightarrow> world \<Rightarrow>
   (error + string) \<times> world" where
  "ContainerEnvironment_run E self runner_kwargs w =
     (case image_name (heap w ! self) of
        None \<Rightarrow> (Inl join_None_error, w)
      | Some name \<Rightarrow>
          (let image = path_join (registry_url (heap w ! self)) name @ '':'' @
                       format_opt (image_tag (heap w ! self));
               w1 = issue (CreateContainer image run_command True) w
           in (docker_create_container E (daemon_calls w) image run_command True, w1)))"

section \<open>Vocabulary of the properties\<close>

text \<open>The descriptor that \<^verbatim>\<open>build\<close> constructs from the receiver and the two identifiers.\<close>

definition built_descriptor :: "container_env \<Rightarrow> string \<Rightarrow> string \<Rightarrow> container_env" where
  "built_descriptor obj name tag =
     \<lparr>base_image = base_image obj, registry_url = registry_url obj,
      image_name = Some name, image_tag = Some tag,
      python_dependencies = python_dependencies obj, env_vars = [], files = []\<rparr>"

text \<open>
  What the properties of the codec take from the libraries: a flow that cloudpickle
  writes and reads back; Fernet decrypting under a valid key what it encrypted under that
  key, and rejecting under a valid key what was encrypted under another one; base64
  decoding what it encoded.
\<close>

definition pickle_roundtrip :: "('f, 's) ext \<Rightarrow> 'f \<Rightarrow> bool" where
  "pickle_roundtrip E c \<longleftrightarrow>
     (\<exists>p. cloudpickle_dumps E c = Inr p \<and> cloudpickle_loads E p = Inr c)"

definition fernet_roundtrip :: "('f, 's) ext \<Rightarrow> bool" where
  "fernet_roundtrip E \<longleftrightarrow>
     (\<forall>k n p. fernet_valid E k \<longrightarrow> fernet_decrypt E k (fernet_encrypt E k n p) = Some p)"

(*C6defs*)

definition b64_roundtrip :: "('f, 's) ext \<Rightarrow> bool" where
  "b64_roundtrip E \<longleftrightarrow> (\<forall>x. b64decode E (b64encode E x) = Inr x)"

section \<open>Concrete collaborators and inputs\<close>

text \<open>
  A small instance of the collaborators, on which the definitions can be evaluated: flows
  and results are strings, pickling and base64 are the identity, a key is valid when it has
  two characters, a token is the key followed by the plaintext, and the daemon accepts
  every call.
\<close>

definition toy_ext :: "(string, string) ext" where
  "toy_ext =
     \<lparr>cloudpickle_dumps = (\<lambda>flow. Inr flow),
      cloudpickle_loads = (\<lambda>b. Inr b),
      fernet_valid = (\<lambda>k. length k = 2),
      fernet_generate_key = (\<lambda>n. ''k0''),
      fernet_encrypt = (\<lambda>k n m. k @ m),
      fernet_decrypt =
        (\<lambda>k t. if take (length k) t = k then Some (drop (length k) t) else None),
      b64encode = (\<lambda>b. b),
      b64decode = (\<lambda>b. Inr b),
      uuid4 = (\<lambda>n. if n = 0 then ''name-0'' else ''tag-1''),
      mkdtemp = (\<lambda>n. ''/tmp/ctx''),
      utf8_decode = (\<lambda>b. Inr b),
      json_stream = (\<lambda>line. Inr (Some line)),
      schema_dump = (\<lambda>env. encryption_key env @ '':'' @ format_opt (serialized_flow env)),
      dedent = (\<lambda>s. s),
      getenv = (\<lambda>v. None),
      flow_runner = (\<lambda>flow kwargs. Inr flow),
      docker_pull = (\<lambda>h ref. Inr []),
      docker_build = (\<lambda>h path tag kwargs. Inr []),
      docker_push = (\<lambda>h name tag. Inr []),
      docker_remove_image = (\<lambda>h image force. Inr ()),
      docker_create_container = (\<lambda>h image command detach. Inr ''container-1'')\<rparr>"

text \<open>The same collaborators with a daemon that fails every \<^verbatim>\<open>remove_image\<close>.\<close>

definition toy_ext_remove_fails :: "(string, string) ext" where
  "toy_ext_remove_fails =
     toy_ext\<lparr>docker_remove_image := (\<lambda>h image force. Inl (DaemonError ''image is in use''))\<rparr>"

text \<open>The unbuilt descriptor of the specification's second end-to-end scenario, at address 0.\<close>

definition unbuilt :: container_env where
  "unbuilt =
     \<lparr>base_image = ''python:3.7'', registry_url = ''myrepo'',
      image_name = None, image_tag = None,
      python_dependencies = [''requests''], env_vars = [], files = []\<rparr>"

definition world0 :: world where
  "world0 =
     \<lparr>daemon_calls = [], disk = Map.empty, filecmp_cache = [], entropy = 0, clock = 0,
      stdout = [], logging_info = [], heap = [unbuilt]\<rparr>"

text \<open>A descriptor that was given a name and no tag, at address 0.\<close>

definition world_named :: world where
  "world_named = world0\<lparr>heap := [unbuilt\<lparr>image_name := Some ''img''\<rparr>]\<rparr>"

(*C7defs*)

section \<open>What a call leaves alone\<close>

text \<open>
  Printing, parsing the build log, writing the build context and the methods of
  \<^verbatim>\<open>LocalEnvironment\<close> issue no daemon call and create no \<^verbatim>\<open>ContainerEnvironment\<close>.
\<close>

lemma print_progress_frame:
  "daemon_calls (print_progress evs w) = daemon_calls w \<and> heap (print_progress evs w) = heap w"
  by (induction evs arbitrary: w) (simp_all add: print_def)

lemma parse_lines_frame:
  "parse_lines E ls w = (r, w') \<Longrightarrow> daemon_calls w' = daemon_calls w \<and> heap w' = heap w"
proof (induction ls arbitrary: w)
  case Nil
  then show ?case by simp
next
  case (Cons l ls)
  then show ?case
    by (auto simp: print_def split: if_splits sum.splits option.splits)
qed

lemma parse_generator_output_frame:
  "parse_generator_output E items w = (r, w') \<Longrightarrow>
     daemon_calls w' = daemon_calls w \<and> heap w' = heap w"
proof (induction items arbitrary: w)
  case Nil
  then show ?case by simp
next
  case (Cons item items)
  show ?case
  proof (cases "utf8_decode E item")
    case (Inl e)
    with Cons.prems show ?thesis by simp
  next
    case (Inr decoded)
    obtain r1 w1 where pl: "parse_lines E (split_newline decoded) w = (r1, w1)"
      by (cases "parse_lines E (split_newline decoded) w")
    from parse_lines_frame [OF pl] have f1: "daemon_calls w1 = daemon_calls w" "heap w1 = heap w"
      by simp_all
    show ?thesis
    proof (cases r1)
      case (Inl e)
      with Cons.prems Inr pl f1 show ?thesis by simp
    next
      case (Inr u)
      with Cons.prems \<open>utf8_decode E item = Inr decoded\<close> pl
      have "parse_generator_output E items w1 = (r, w')" by simp
      from Cons.IH [OF this] f1 show ?thesis by simp
    qed
  qed
qed

lemma pull_image_effect:
  assumes "pull_image E self w = (r, w')"
  shows "daemon_calls w' = daemon_calls w @ [Pull (base_image (heap w ! self))]"
    and "heap w' = heap w"
  using assms
  by (auto simp: pull_image_def Let_def issue_def print_progress_frame split: sum.splits)

lemma push_effect:
  assumes "push E self name tag w = (r, w')"
  shows "daemon_calls w' = daemon_calls w @ [Push name tag]"
    and "heap w' = heap w"
  using assms
  by (auto simp: push_def Let_def issue_def print_progress_frame split: sum.splits)

lemma LocalEnvironment_init_frame:
  "LocalEnvironment_init E key payload w = (r, w') \<Longrightarrow>
     daemon_calls w' = daemon_calls w \<and> heap w' = heap w"
  by (auto simp: LocalEnvironment_init_def split: option.splits if_splits)

lemma serialize_flow_to_bytes_frame:
  "serialize_flow_to_bytes E self flow w = (r, w') \<Longrightarrow>
     daemon_calls w' = daemon_calls w \<and> heap w' = heap w"
  by (auto simp: serialize_flow_to_bytes_def Let_def split: sum.splits)

lemma LocalEnvironment_build_frame:
  "LocalEnvironment_build E self flow w = (r, w') \<Longrightarrow>
     daemon_calls w' = daemon_calls w \<and> heap w' = heap w"
  by (auto simp: LocalEnvironment_build_def split: prod.splits sum.splits
      dest!: serialize_flow_to_bytes_frame LocalEnvironment_init_frame)

lemma create_dockerfile_frame:
  assumes "create_dockerfile E self flow directory w = (r, w')"
  shows "daemon_calls w' = daemon_calls w \<and> heap w' = heap w"
  using assms
  by (auto simp: create_dockerfile_def Let_def write_file_def to_file_def open_w_def
      split: option.splits prod.splits sum.splits if_splits
      dest!: LocalEnvironment_build_frame LocalEnvironment_init_frame)

lemma ContainerEnvironment_new_built:
  "ContainerEnvironment_new base registry deps name tag None None w =
     (Inr (length (heap w)),
      w\<lparr>heap := heap w @
         [\<lparr>base_image = base, registry_url = registry, image_name = name, image_tag = tag,
           python_dependencies = (case deps of None \<Rightarrow> [] | Some l \<Rightarrow> l),
           env_vars = [], files = []\<rparr>]\<rparr>)"
  by (simp add: ContainerEnvironment_new_def ContainerEnvironment_init_def)

text \<open>What is logged: nothing but the line of \<^verbatim>\<open>push\<close>.\<close>

lemma print_progress_logging: "logging_info (print_progress evs w) = logging_info w"
  by (induction evs arbitrary: w) (simp_all add: print_def)

lemma parse_lines_logging:
  "parse_lines E ls w = (r, w') \<Longrightarrow> logging_info w' = logging_info w"
proof (induction ls arbitrary: w)
  case Nil
  then show ?case by simp
next
  case (Cons l ls)
  then show ?case
    by (auto simp: print_def split: if_splits sum.splits option.splits)
qed

lemma parse_generator_output_logging:
  "parse_generator_output E items w = (r, w') \<Longrightarrow> logging_info w' = logging_info w"
proof (induction items arbitrary: w)
  case Nil
  then show ?case by simp
next
  case (Cons item items)
  show ?case
  proof (cases "utf8_decode E item")
    case (Inl e)
    with Cons.prems show ?thesis by simp
  next
    case (Inr decoded)
    obtain r1 w1 where pl: "parse_lines E (split_newline decoded) w = (r1, w1)"
      by (cases "parse_lines E (split_newline decoded) w")
    note f1 = parse_lines_logging [OF pl]
    show ?thesis
    proof (cases r1)
      case (Inl e)
      with Cons.prems Inr pl f1 show ?thesis by simp
    next
      case (Inr u)
      with Cons.prems \<open>utf8_decode E item = Inr decoded\<close> pl
      have "parse_generator_output E items w1 = (r, w')" by simp
      from Cons.IH [OF this] f1 show ?thesis by simp
    qed
  qed
qed

lemma pull_image_logging:
  "pull_image E self w = (r, w') \<Longrightarrow> logging_info w' = logging_info w"
  by (auto simp: pull_image_def Let_def issue_def print_progress_logging split: sum.splits)

lemma push_logging:
  "push E self name tag w = (r, w') \<Longrightarrow>
     logging_info w' = logging_info w @ [''Pushing image to the registry...'']"
  by (auto simp: push_def Let_def issue_def print_progress_logging split: sum.splits)

lemma LocalEnvironment_build_logging:
  "LocalEnvironment_build E self flow w = (r, w') \<Longrightarrow> logging_info w' = logging_info w"
  by (auto simp: LocalEnvironment_build_def LocalEnvironment_init_def
      serialize_flow_to_bytes_def Let_def split: prod.splits sum.splits if_splits)

lemma create_dockerfile_logging:
  assumes "create_dockerfile E self flow directory w = (r, w')"
  shows "logging_info w' = logging_info w"
  using assms
  by (auto simp: create_dockerfile_def Let_def write_file_def to_file_def open_w_def
      LocalEnvironment_init_def
      split: option.splits prod.splits sum.splits if_splits
      dest!: LocalEnvironment_build_logging)

section \<open>The outcomes of \<^verbatim>\<open>ContainerEnvironment.build\<close>\<close>

text \<open>
  A call of \<^verbatim>\<open>build\<close> ends in one of five ways, told apart by the daemon calls it issued:
  it stopped after the pull (the pull or the build context failed), after the build request
  (the request or its log failed), at a failing push, at a failing \<^verbatim>\<open>remove_image\<close>, or it
  returned the new descriptor.
\<close>

lemma build_in_tempdir_cases [consumes 1, case_names stopped_after_pull stopped_after_build
    push_failed remove_failed built]:
  assumes run: "build_in_tempdir E self flow push_flag name tag tempdir w = (r, w')"
  defines "obj \<equiv> heap w ! self"
  defines "full_name \<equiv> path_join (registry_url obj) name"
  defines "img \<equiv> full_name @ '':'' @ tag"
  defines "upto_build \<equiv> daemon_calls w @ [Pull (base_image obj), Build tempdir img [(''forcerm'', True)]]"
  defines "upto_push \<equiv> upto_build @ (if push_flag then [Push full_name tag] else [])"
  obtains
    (stopped_after_pull) e where "r = Inl e" "heap w' = heap w"
      "daemon_calls w' = daemon_calls w @ [Pull (base_image obj)]"
  | (stopped_after_build) e where "r = Inl e" "heap w' = heap w"
      "daemon_calls w' = upto_build"
  | (push_failed) e where "r = Inl e" "heap w' = heap w" "push_flag"
      "daemon_calls w' = upto_build @ [Push full_name tag]"
  | (remove_failed) e where "r = Inl e" "heap w' = heap w"
      "daemon_calls w' = upto_push @ [RemoveImage img True]"
      "docker_remove_image E upto_push img True = Inl e"
      "logging_info w' =
         logging_info w @ ''Building the flow's container environment...'' #
           (if push_flag then [''Pushing image to the registry...''] else [])"
  | (built) "r = Inr (length (heap w))"
      "heap w' = heap w @ [built_descriptor obj name tag]"
      "daemon_calls w' = upto_push @ [RemoveImage img True]"
      "docker_remove_image E upto_push img True = Inr ()"
proof -
  obtain r1 w1 where s1: "pull_image E self w = (r1, w1)"
    by (cases "pull_image E self w")
  note f1 = pull_image_effect [OF s1, folded obj_def]
  note l1 = pull_image_logging [OF s1]
  show thesis
  proof (cases r1)
    case (Inl e)
    with run s1 have "r = Inl e" "w' = w1" by (simp_all add: build_in_tempdir_def)
    with f1 show thesis by (intro stopped_after_pull) simp_all
  next
    case r1: (Inr u1)
    obtain r2 w2 where s2: "create_dockerfile E self flow (Some tempdir) w1 = (r2, w2)"
      by (cases "create_dockerfile E self flow (Some tempdir) w1")
    from create_dockerfile_frame [OF s2] f1
    have f2: "daemon_calls w2 = daemon_calls w @ [Pull (base_image obj)]" "heap w2 = heap w"
      by simp_all
    from create_dockerfile_logging [OF s2] l1
    have l2: "logging_info w2 = logging_info w" by simp
    show thesis
    proof (cases r2)
      case (Inl e)
      with run s1 r1 s2 have "r = Inl e" "w' = w2" by (simp_all add: build_in_tempdir_def)
      with f2 show thesis by (intro stopped_after_pull) simp_all
    next
      case r2: (Inr u2)
      define w3 where "w3 = w2\<lparr>logging_info :=
          logging_info w2 @ [''Building the flow's container environment...'']\<rparr>"
      define w4 where "w4 = issue (Build tempdir img [(''forcerm'', True)]) w3"
      have f4: "daemon_calls w3 = daemon_calls w @ [Pull (base_image obj)]"
        "daemon_calls w4 = upto_build" "heap w4 = heap w"
        using f2 by (simp_all add: w3_def w4_def issue_def upto_build_def)
      have l4: "logging_info w4 =
          logging_info w @ [''Building the flow's container environment...'']"
        using l2 by (simp add: w3_def w4_def issue_def)
      define full2 where "full2 = path_join (registry_url (heap w2 ! self)) name"
      define img2 where "img2 = full2 @ '':'' @ tag"
      have eqs: "full2 = full_name" "img2 = img"
        using f2 by (simp_all add: full2_def img2_def full_name_def img_def obj_def)
      have "(case docker_build E (daemon_calls w3) tempdir img2 [(''forcerm'', True)] of
            Inl e \<Rightarrow> (Inl e, issue (Build tempdir img2 [(''forcerm'', True)]) w3)
          | Inr output \<Rightarrow>
              (case parse_generator_output E output
                      (issue (Build tempdir img2 [(''forcerm'', True)]) w3) of
                 (Inl e, w5) \<Rightarrow> (Inl e, w5)
               | (Inr u3, w5) \<Rightarrow>
                   (case (if push_flag then push E self full2 tag w5 else (Inr (), w5)) of
                      (Inl e, w6) \<Rightarrow> (Inl e, w6)
                    | (Inr u4, w6) \<Rightarrow>
                        (case docker_remove_image E (daemon_calls w6) img2 True of
                           Inl e \<Rightarrow> (Inl e, issue (RemoveImage img2 True) w6)
                         | Inr u5 \<Rightarrow>
                             ContainerEnvironment_new
                               (base_image (heap (issue (RemoveImage img2 True) w6) ! self))
                               (registry_url (heap (issue (RemoveImage img2 True) w6) ! self))
                               (Some (python_dependencies
                                        (heap (issue (RemoveImage img2 True) w6) ! self)))
                               (Some name) (Some tag) None None
                               (issue (RemoveImage img2 True) w6))))) = (r, w')"
        using run s1 r1 s2 r2
        unfolding build_in_tempdir_def Let_def w3_def img2_def full2_def
        by simp
      note rest = this [unfolded eqs, folded w4_def]
      show thesis
      proof (cases "docker_build E (daemon_calls w3) tempdir img [(''forcerm'', True)]")
        case (Inl e)
        with rest have "r = Inl e" "w' = w4" by simp_all
        with f4 show thesis by (intro stopped_after_build) simp_all
      next
        case out: (Inr chunks)
        obtain r5 w5 where s5: "parse_generator_output E chunks w4 = (r5, w5)"
          by (cases "parse_generator_output E chunks w4")
        from parse_generator_output_frame [OF s5] f4
        have f5: "daemon_calls w5 = upto_build" "heap w5 = heap w" by simp_all
        from parse_generator_output_logging [OF s5] l4
        have l5: "logging_info w5 =
            logging_info w @ [''Building the flow's container environment...'']"
          by simp
        show thesis
        proof (cases r5)
          case (Inl e)
          with rest out s5 have "r = Inl e" "w' = w5" by simp_all
          with f5 show thesis by (intro stopped_after_build) simp_all
        next
          case r5: (Inr u3)
          obtain r6 w6 where s6:
            "(if push_flag then push E self full_name tag w5 else (Inr (), w5)) = (r6, w6)"
            by (cases "if push_flag then push E self full_name tag w5 else (Inr (), w5)")
          have f6: "heap w6 = heap w" "daemon_calls w6 = upto_push"
            using s6 f5 push_effect [of E self full_name tag w5 r6 w6]
            by (auto simp: upto_push_def split: if_splits)
          have l6: "logging_info w6 =
              logging_info w @ ''Building the flow's container environment...'' #
                (if push_flag then [''Pushing image to the registry...''] else [])"
            using s6 l5 push_logging [of E self full_name tag w5 r6 w6]
            by (auto split: if_splits)
          show thesis
          proof (cases r6)
            case (Inl e)
            with rest out s5 r5 s6 have e: "r = Inl e" "w' = w6" by simp_all
            from Inl s6 have "push_flag" by (auto split: if_splits)
            with e f6 show thesis by (intro push_failed) (simp_all add: upto_push_def)
          next
            case r6: (Inr u4)
            show thesis
            proof (cases "docker_remove_image E upto_push img True")
              case (Inl e)
              with rest out s5 r5 s6 r6 f6
              have "r = Inl e" "w' = issue (RemoveImage img True) w6" by simp_all
              with f6 l6 Inl show thesis by (intro remove_failed) (simp_all add: issue_def)
            next
              case (Inr u5)
              with rest out s5 r5 s6 r6 f6
              have "r = Inr (length (heap w))"
                "w' = (issue (RemoveImage img True) w6)
                       \<lparr>heap := heap w @ [built_descriptor obj name tag]\<rparr>"
                by (simp_all add: ContainerEnvironment_new_built built_descriptor_def issue_def
                    obj_def)
              with f6 Inr show thesis by (intro built) (simp_all add: issue_def)
            qed
          qed
        qed
      qed
    qed
  qed
qed

lemma ContainerEnvironment_build_cases [consumes 1, case_names stopped_after_pull
    stopped_after_build push_failed remove_failed built]:
  assumes run: "ContainerEnvironment_build E self flow push_flag w = (r, w')"
  defines "obj \<equiv> heap w ! self"
  defines "name \<equiv> uuid4 E (entropy w)"
  defines "tag \<equiv> uuid4 E (entropy w + 1)"
  defines "tempdir \<equiv> mkdtemp E (entropy w + 2)"
  defines "full_name \<equiv> path_join (registry_url obj) name"
  defines "img \<equiv> full_name @ '':'' @ tag"
  defines "upto_build \<equiv> daemon_calls w @ [Pull (base_image obj), Build tempdir img [(''forcerm'', True)]]"
  defines "upto_push \<equiv> upto_build @ (if push_flag then [Push full_name tag] else [])"
  obtains
    (stopped_after_pull) e where "r = Inl e" "heap w' = heap w"
      "daemon_calls w' = daemon_calls w @ [Pull (base_image obj)]"
  | (stopped_after_build) e where "r = Inl e" "heap w' = heap w"
      "daemon_calls w' = upto_build"
  | (push_failed) e where "r = Inl e" "heap w' = heap w" "push_flag"
      "daemon_calls w' = upto_build @ [Push full_name tag]"
  | (remove_failed) e where "r = Inl e" "heap w' = heap w"
      "daemon_calls w' = upto_push @ [RemoveImage img True]"
      "docker_remove_image E upto_push img True = Inl e"
      "logging_info w' =
         logging_info w @ ''Building the flow's container environment...'' #
           (if push_flag then [''Pushing image to the registry...''] else [])"
  | (built) "r = Inr (length (heap w))"
      "heap w' = heap w @ [built_descriptor obj name tag]"
      "daemon_calls w' = upto_push @ [RemoveImage img True]"
      "docker_remove_image E upto_push img True = Inr ()"
proof -
  define w0 where
    "w0 = w\<lparr>entropy := entropy w + 3,
             disk := (disk w)(mkdtemp E (entropy w + 2) \<mapsto> Directory)\<rparr>"
  obtain w1 where inner: "build_in_tempdir E self flow push_flag name tag tempdir w0 = (r, w1)"
    and w': "w' = w1\<lparr>disk := rmtree tempdir (disk w1)\<rparr>"
    using run
    by (auto simp: ContainerEnvironment_build_def Let_def w0_def name_def tag_def tempdir_def
        split: prod.splits)
  have same: "heap w0 = heap w" "daemon_calls w0 = daemon_calls w"
    "logging_info w0 = logging_info w"
    by (simp_all add: w0_def)
  from inner show thesis
  proof (cases rule: build_in_tempdir_cases)
    case (stopped_after_pull e)
    from this [unfolded same] w' show ?thesis
      by (intro that(1)) (simp_all add: obj_def)
  next
    case (stopped_after_build e)
    from this [unfolded same] w' show ?thesis
      by (intro that(2))
        (simp_all add: obj_def upto_build_def img_def full_name_def)
  next
    case (push_failed e)
    from this [unfolded same] w' show ?thesis
      by (intro that(3))
        (simp_all add: obj_def upto_build_def img_def full_name_def)
  next
    case (remove_failed e)
    from this [unfolded same] w' show ?thesis
      by (intro that(4))
        (auto simp add: obj_def upto_build_def upto_push_def img_def full_name_def
           split: if_splits)
  next
    case built
    from this [unfolded same] w' show ?thesis
      by (intro that(5))
        (auto simp add: obj_def upto_build_def upto_push_def img_def full_name_def
           split: if_splits)
  qed
qed

text \<open>The daemon calls of a \<^verbatim>\<open>build\<close> that returns, with and without \<open>push\<close>.\<close>

lemma successful_build_trace:
  assumes "ContainerEnvironment_build E self flow push_flag w = (Inr a, w')"
  shows "daemon_calls w' =
     daemon_calls w @
     [Pull (base_image (heap w ! self)),
      Build (mkdtemp E (entropy w + 2))
        (path_join (registry_url (heap w ! self)) (uuid4 E (entropy w)) @ '':'' @
         uuid4 E (entropy w + 1))
        [(''forcerm'', True)]] @
     (if push_flag
      then [Push (path_join (registry_url (heap w ! self)) (uuid4 E (entropy w)))
              (uuid4 E (entropy w + 1))]
      else []) @
     [RemoveImage
        (path_join (registry_url (heap w ! self)) (uuid4 E (entropy w)) @ '':'' @
         uuid4 E (entropy w + 1)) True]"
  using assms
  by (cases rule: ContainerEnvironment_build_cases) simp_all

section \<open>The concrete inputs evaluated\<close>

lemmas toy_defs = toy_ext_def toy_ext_remove_fails_def unbuilt_def world0_def world_named_def
lemmas op_defs = ContainerEnvironment_build_def build_in_tempdir_def pull_image_def create_dockerfile_def
  push_def issue_def print_def write_file_def to_file_def open_w_def LocalEnvironment_init_def
  LocalEnvironment_build_def
  serialize_flow_to_bytes_def Fernet_def ContainerEnvironment_new_def ContainerEnvironment_init_def
  path_join_def isabs_def Let_def

lemma toy_build_no_push:
  "ContainerEnvironment_build toy_ext 0 ''flow'' False world0 =
     (Inr 1, snd (ContainerEnvironment_build toy_ext 0 ''flow'' False world0))"
  by (simp add: toy_defs op_defs prod_eq_iff)

lemma toy_build_push:
  "ContainerEnvironment_build toy_ext 0 ''flow'' True world0 =
     (Inr 1, snd (ContainerEnvironment_build toy_ext 0 ''flow'' True world0))"
  by (simp add: toy_defs op_defs prod_eq_iff)

lemma toy_ext_contracts:
  "pickle_roundtrip toy_ext c" "fernet_roundtrip toy_ext" "b64_roundtrip toy_ext"
  by (auto simp: pickle_roundtrip_def fernet_roundtrip_def b64_roundtrip_def toy_ext_def)

section \<open>Claim C1: a build without push\<close>

text \<open>
  Claim C1 says that \<^verbatim>\<open>build\<close> with \<^verbatim>\<open>push=False\<close> issues neither a push nor a
  \<^verbatim>\<open>remove_image\<close> daemon call. The source keeps \<^verbatim>\<open>client.remove_image\<close> outside the
  \<^verbatim>\<open>if push:\<close> block, under the comment "Remove the image locally after being pushed". On
  the descriptor of the second end-to-end scenario, with a daemon that accepts every call,
  \<^verbatim>\<open>build(flow, push=False)\<close> returns the new descriptor, and the calls it issued are the
  pull, the build and the removal of the image that was never pushed.
\<close>

theorem build_without_push_removes_image:
  "fst (ContainerEnvironment_build toy_ext 0 ''flow'' False world0) = Inr 1 \<and>
   daemon_calls (snd (ContainerEnvironment_build toy_ext 0 ''flow'' False world0)) =
     [Pull ''python:3.7'',
      Build ''/tmp/ctx'' ''myrepo/name-0:tag-1'' [(''forcerm'', True)],
      RemoveImage ''myrepo/name-0:tag-1'' True]"
  by (simp add: toy_defs op_defs)

section \<open>Claim C2: a failing \<^verbatim>\<open>remove_image\<close>\<close>

text \<open>
  Claim C2, as amended: when a call of \<^verbatim>\<open>build\<close> with \<open>push\<close> has reached
  \<^verbatim>\<open>remove_image\<close> (so the pull, the build context, the build and the push succeeded) and
  the daemon fails that call, the failure is neither swallowed nor logged: \<^verbatim>\<open>build\<close> raises
  that error, creates no descriptor, and the log holds the two lines of the build and the
  push and nothing else.
\<close>

theorem remove_failure_propagates:
  assumes "ContainerEnvironment_build E self flow push_flag w = (r, w')"
    and "push_flag"
    and "daemon_calls w' = h @ [RemoveImage img force]"
    and "docker_remove_image E h img force = Inl e"
  shows "r = Inl e \<and> heap w' = heap w \<and>
         logging_info w' =
           logging_info w @
           [''Building the flow's container environment...'',
            ''Pushing image to the registry...'']"
  using assms(1)
proof (cases rule: ContainerEnvironment_build_cases)
  case (stopped_after_pull e')
  with assms(3) show ?thesis by simp
next
  case (stopped_after_build e')
  with assms(3) show ?thesis by simp
next
  case (push_failed e')
  with assms(3) show ?thesis by simp
next
  case (remove_failed e')
  from remove_failed(3,4) obtain u i
    where "daemon_calls w' = u @ [RemoveImage i True]" "docker_remove_image E u i True = Inl e'"
    by (rule that)
  with assms(3,4) have "e' = e" by simp
  with remove_failed(1,2,5) assms(2) show ?thesis by simp
next
  case built
  from built(3,4) obtain u i
    where "daemon_calls w' = u @ [RemoveImage i True]" "docker_remove_image E u i True = Inr ()"
    by (rule that)
  with assms(3,4) have False by simp
  then show ?thesis ..
qed

text \<open>The amended claim C2 at a daemon that fails every \<^verbatim>\<open>remove_image\<close>.\<close>

theorem remove_failure_propagates_witness:
  "fst (ContainerEnvironment_build toy_ext_remove_fails 0 ''flow'' True world0) =
     Inl (DaemonError ''image is in use'') \<and>
   heap (snd (ContainerEnvironment_build toy_ext_remove_fails 0 ''flow'' True world0)) =
     heap world0 \<and>
   logging_info (snd (ContainerEnvironment_build toy_ext_remove_fails 0 ''flow'' True world0)) =
     logging_info world0 @
     [''Building the flow's container environment...'',
      ''Pushing image to the registry...'']"
proof -
  let ?run = "ContainerEnvironment_build toy_ext_remove_fails 0 ''flow'' True world0"
  have run: "?run = (fst ?run, snd ?run)" by simp
  have calls: "daemon_calls (snd ?run) =
      [Pull ''python:3.7'',
       Build ''/tmp/ctx'' ''myrepo/name-0:tag-1'' [(''forcerm'', True)],
       Push ''myrepo/name-0'' ''tag-1''] @ [RemoveImage ''myrepo/name-0:tag-1'' True]"
    by (simp add: toy_defs op_defs)
  have fails: "docker_remove_image toy_ext_remove_fails
      [Pull ''python:3.7'',
       Build ''/tmp/ctx'' ''myrepo/name-0:tag-1'' [(''forcerm'', True)],
       Push ''myrepo/name-0'' ''tag-1''] ''myrepo/name-0:tag-1'' True =
      Inl (DaemonError ''image is in use'')"
    by (simp add: toy_defs)
  from remove_failure_propagates [OF run TrueI calls fails] show ?thesis .
qed

text \<open>
  Claim C2 as stated fails there: the pull, the build and the push went through, the
  removal failed, and \<^verbatim>\<open>build\<close> raised the daemon's error instead of returning a descriptor;
  the log, empty before the call, holds no line about the failure.
\<close>

theorem remove_failure_fails_build:
  "fst (ContainerEnvironment_build toy_ext_remove_fails 0 ''flow'' True world0) =
     Inl (DaemonError ''image is in use'') \<and>
   daemon_calls (snd (ContainerEnvironment_build toy_ext_remove_fails 0 ''flow'' True world0)) =
     [Pull ''python:3.7'',
      Build ''/tmp/ctx'' ''myrepo/name-0:tag-1'' [(''forcerm'', True)],
      Push ''myrepo/name-0'' ''tag-1'',
      RemoveImage ''myrepo/name-0:tag-1'' True] \<and>
   logging_info (snd (ContainerEnvironment_build toy_ext_remove_fails 0 ''flow'' True world0)) =
     [''Building the flow's container environment...'',
      ''Pushing image to the registry...'']"
  by (simp add: toy_defs op_defs)

section \<open>Claim C3: running an unbuilt descriptor\<close>

text \<open>
  \<^verbatim>\<open>LocalEnvironment.run\<close> checks for a payload first and raises the \<^verbatim>\<open>ValueError\<close> that asks
  whether the environment has been built, whatever the collaborators are.
\<close>

lemma LocalEnvironment_run_unbuilt:
  "serialized_flow self = None \<or> serialized_flow self = Some [] \<Longrightarrow>
     LocalEnvironment_run E self runner_kwargs = Inl NotBuiltError"
  by (auto simp: LocalEnvironment_run_def)

text \<open>
  Claim C3 says that \<^verbatim>\<open>ContainerEnvironment.run\<close> on a descriptor without image coordinates
  fails with the same error and launches nothing. The source has no such check in
  \<^verbatim>\<open>ContainerEnvironment.run\<close>. With neither name nor tag, \<^verbatim>\<open>os.path.join\<close> raises a
  \<^verbatim>\<open>TypeError\<close>, which is not that error; with a name and no tag, the container
  \<^verbatim>\<open>myrepo/img:None\<close> is created.
\<close>

theorem container_run_unbuilt:
  "ContainerEnvironment_run toy_ext 0 None world0 =
     (Inl join_None_error, world0) \<and>
   join_None_error \<noteq> NotBuiltError \<and>
   image_tag (heap world_named ! 0) = None \<and>
   fst (ContainerEnvironment_run toy_ext 0 None world_named) = Inr ''container-1'' \<and>
   daemon_calls (snd (ContainerEnvironment_run toy_ext 0 None world_named)) =
     [CreateContainer ''myrepo/img:None'' run_command True]"
  by (simp add: ContainerEnvironment_run_def toy_defs NotBuiltError_def join_None_error_def
      path_join_def isabs_def format_opt_def issue_def Let_def)

section \<open>Claim C4: the options of a build request\<close>

text \<open>
  Claim C4, as amended: every build request that a call of \<^verbatim>\<open>build\<close> issues passes
  \<^verbatim>\<open>forcerm=True\<close> and no other option; \<^verbatim>\<open>nocache\<close> is not set, so the layer cache stays in
  use.
\<close>

theorem build_request_options:
  assumes "ContainerEnvironment_build E self flow push_flag w = (r, w')"
    and "Build path img kwargs \<in> set (drop (length (daemon_calls w)) (daemon_calls w'))"
  shows "kwargs = [(''forcerm'', True)] \<and> build_option kwargs ''forcerm'' \<and>
         \<not> build_option kwargs ''nocache''"
  using assms(1)
proof (cases rule: ContainerEnvironment_build_cases)
  case (stopped_after_pull e')
  with assms(2) show ?thesis by simp
next
  case (stopped_after_build e')
  with assms(2) show ?thesis by (auto simp: build_option_def)
next
  case (push_failed e')
  with assms(2) show ?thesis by (auto simp: build_option_def)
next
  case (remove_failed e')
  with assms(2) show ?thesis by (auto simp: build_option_def split: if_splits)
next
  case built
  with assms(2) show ?thesis by (auto simp: build_option_def split: if_splits)
qed

text \<open>The amended claim C4 at the concrete build.\<close>

theorem build_request_options_witness:
  "Build ''/tmp/ctx'' ''myrepo/name-0:tag-1'' [(''forcerm'', True)] \<in>
     set (drop (length (daemon_calls world0))
            (daemon_calls (snd (ContainerEnvironment_build toy_ext 0 ''flow'' True world0)))) \<and>
   build_option [(''forcerm'', True)] ''forcerm'' \<and>
   \<not> build_option [(''forcerm'', True)] ''nocache''"
proof -
  have issued: "Build ''/tmp/ctx'' ''myrepo/name-0:tag-1'' [(''forcerm'', True)] \<in>
     set (drop (length (daemon_calls world0))
            (daemon_calls (snd (ContainerEnvironment_build toy_ext 0 ''flow'' True world0))))"
    by (simp add: toy_defs op_defs)
  from build_request_options [OF toy_build_push issued] issued show ?thesis by simp
qed

text \<open>Claim C4 as stated fails there: the build request was issued with caching enabled.\<close>

theorem build_request_keeps_cache:
  "Build ''/tmp/ctx'' ''myrepo/name-0:tag-1'' [(''forcerm'', True)] \<in>
     set (daemon_calls (snd (ContainerEnvironment_build toy_ext 0 ''flow'' True world0))) \<and>
   \<not> caching_disabled (Build ''/tmp/ctx'' ''myrepo/name-0:tag-1'' [(''forcerm'', True)])"
  by (simp add: toy_defs op_defs caching_disabled_def build_option_def)

section \<open>Claims C5 and C6: the codec\<close>

text \<open>
  Claim C5: for a descriptor with a valid key, a flow that cloudpickle writes and reads
  back, and Fernet and base64 inverting themselves, \<^verbatim>\<open>serialize_flow_to_bytes\<close> returns a
  payload and \<^verbatim>\<open>deserialize_flow_from_bytes\<close> of that payload returns the flow.
\<close>

theorem decode_encode:
  assumes "fernet_valid E (encryption_key self)"
    and "pickle_roundtrip E c" and "fernet_roundtrip E" and "b64_roundtrip E"
  shows "\<exists>payload. fst (serialize_flow_to_bytes E self c w) = Inr payload \<and>
           deserialize_flow_from_bytes E self payload = Inr c"
  using assms
  by (auto simp: serialize_flow_to_bytes_def deserialize_flow_from_bytes_def Fernet_def
      pickle_roundtrip_def fernet_roundtrip_def b64_roundtrip_def Let_def)

text \<open>Claim C5 at the concrete collaborators.\<close>

theorem decode_encode_witness:
  "fernet_valid toy_ext ''k0'' \<and>
   (\<exists>payload.
      fst (serialize_flow_to_bytes toy_ext \<lparr>encryption_key = ''k0'', serialized_flow = None\<rparr>
             ''flow'' world0) = Inr payload \<and>
      deserialize_flow_from_bytes toy_ext \<lparr>encryption_key = ''k0'', serialized_flow = None\<rparr>
        payload = Inr ''flow'')"
proof -
  have v: "fernet_valid toy_ext (encryption_key \<lparr>encryption_key = ''k0'', serialized_flow = None\<rparr>)"
    by (simp add: toy_ext_def)
  from decode_encode [OF v toy_ext_contracts(1,2,3), of "''flow''" world0] v
  show ?thesis by simp
qed

(*C6*)

(*C7*)

section \<open>Claim C8: validation at construction\<close>

text \<open>
  Claim C8: constructing a \<^verbatim>\<open>LocalEnvironment\<close> with a key that Fernet refuses raises the
  invalid-key error at once; constructing a \<^verbatim>\<open>ContainerEnvironment\<close> whose \<open>files\<close> have a
  key that is not absolute raises the path error, naming those keys, and when every key is
  absolute the object is created. A constructor that raises leaves the world as it was: no
  daemon call, no object.
\<close>

theorem validation_at_construction:
  "(\<not> fernet_valid E k \<longrightarrow>
      LocalEnvironment_init E (Some k) payload w = (Inl InvalidKeyError, w)) \<and>
   ((\<exists>p \<in> set (map fst fls). \<not> isabs p) \<longrightarrow>
      ContainerEnvironment_new base registry deps name tag env (Some fls) w =
        (Inl (PathConstraintError (filter (\<lambda>p. \<not> isabs p) (map fst fls))), w)) \<and>
   ((\<forall>p \<in> set (map fst fls). isabs p) \<longrightarrow>
      ContainerEnvironment_new base registry deps name tag env (Some fls) w =
        (Inr (length (heap w)),
         w\<lparr>heap := heap w @
            [\<lparr>base_image = base, registry_url = registry, image_name = name, image_tag = tag,
              python_dependencies = (case deps of None \<Rightarrow> [] | Some l \<Rightarrow> l),
              env_vars = (case env of None \<Rightarrow> [] | Some m \<Rightarrow> m),
              files = fls\<rparr>]\<rparr>))"
  by (auto simp: LocalEnvironment_init_def ContainerEnvironment_new_def
      ContainerEnvironment_init_def Let_def filter_empty_conv)

text \<open>Claim C8 at a malformed key, a relative path and an absolute path.\<close>

theorem validation_at_construction_witness:
  "\<not> fernet_valid toy_ext ''bad'' \<and>
   LocalEnvironment_init toy_ext (Some ''bad'') None world0 = (Inl InvalidKeyError, world0) \<and>
   \<not> isabs ''rel/foo.txt'' \<and>
   ContainerEnvironment_new ''python:3.7'' ''myrepo'' None None None None
     (Some [(''rel/foo.txt'', ''/app/foo.txt'')]) world0 =
     (Inl (PathConstraintError [''rel/foo.txt'']), world0) \<and>
   isabs ''/abs/src/foo.txt'' \<and>
   fst (ContainerEnvironment_new ''python:3.7'' ''myrepo'' None None None None
     (Some [(''/abs/src/foo.txt'', ''/app/foo.txt'')]) world0) = Inr 1"
  using validation_at_construction [of toy_ext "''bad''" None world0
      "[(''rel/foo.txt'', ''/app/foo.txt'')]" "''python:3.7''" "''myrepo''" None None None None]
    validation_at_construction [of toy_ext "''bad''" None world0
      "[(''/abs/src/foo.txt'', ''/app/foo.txt'')]" "''python:3.7''" "''myrepo''" None None None None]
  by (simp add: toy_ext_def isabs_def world0_def)

section \<open>Claims C9 and C10: the descriptor that \<^verbatim>\<open>build\<close> returns, and the receiver\<close>

text \<open>
  Claim C9: a call of \<^verbatim>\<open>build\<close> that returns, returns a new object whose base image,
  registry and dependencies are the receiver's, whose name and tag are the two identifiers
  drawn by this call, and whose \<open>files\<close> and \<open>env_vars\<close> are empty.
\<close>

theorem build_returns_new_descriptor:
  assumes "ContainerEnvironment_build E self flow push_flag w = (Inr a, w')"
  shows "a = length (heap w) \<and>
         base_image (heap w' ! a) = base_image (heap w ! self) \<and>
         registry_url (heap w' ! a) = registry_url (heap w ! self) \<and>
         python_dependencies (heap w' ! a) = python_dependencies (heap w ! self) \<and>
         image_name (heap w' ! a) = Some (uuid4 E (entropy w)) \<and>
         image_tag (heap w' ! a) = Some (uuid4 E (entropy w + 1)) \<and>
         files (heap w' ! a) = [] \<and> env_vars (heap w' ! a) = []"
  using assms
  by (cases rule: ContainerEnvironment_build_cases) (simp_all add: built_descriptor_def)

text \<open>Claim C9 at the concrete build.\<close>

theorem build_returns_new_descriptor_witness:
  "fst (ContainerEnvironment_build toy_ext 0 ''flow'' False world0) = Inr 1 \<and>
   base_image (heap (snd (ContainerEnvironment_build toy_ext 0 ''flow'' False world0)) ! 1) =
     ''python:3.7'' \<and>
   registry_url (heap (snd (ContainerEnvironment_build toy_ext 0 ''flow'' False world0)) ! 1) =
     ''myrepo'' \<and>
   python_dependencies
     (heap (snd (ContainerEnvironment_build toy_ext 0 ''flow'' False world0)) ! 1) =
     [''requests''] \<and>
   image_name (heap (snd (ContainerEnvironment_build toy_ext 0 ''flow'' False world0)) ! 1) =
     Some ''name-0'' \<and>
   image_tag (heap (snd (ContainerEnvironment_build toy_ext 0 ''flow'' False world0)) ! 1) =
     Some ''tag-1'' \<and>
   files (heap (snd (ContainerEnvironment_build toy_ext 0 ''flow'' False world0)) ! 1) = [] \<and>
   env_vars (heap (snd (ContainerEnvironment_build toy_ext 0 ''flow'' False world0)) ! 1) = []"
proof -
  have returned: "fst (ContainerEnvironment_build toy_ext 0 ''flow'' False world0) = Inr 1"
    by (simp add: toy_defs op_defs)
  from build_returns_new_descriptor [OF toy_build_no_push] returned
  show ?thesis by (simp add: toy_defs)
qed

text \<open>
  Claim C10: whatever a call of \<^verbatim>\<open>build\<close> does, the receiver and every other object that
  existed before the call are as they were; an unbuilt receiver is still unbuilt.
\<close>

theorem build_leaves_receiver:
  assumes "ContainerEnvironment_build E self flow push_flag w = (r, w')"
    and "self < length (heap w)"
  shows "heap w' ! self = heap w ! self \<and> take (length (heap w)) (heap w') = heap w"
  using assms(1)
  by (cases rule: ContainerEnvironment_build_cases) (simp_all add: assms(2) nth_append)

text \<open>Claim C10 at the concrete build.\<close>

theorem build_leaves_receiver_witness:
  "0 < length (heap world0) \<and>
   heap (snd (ContainerEnvironment_build toy_ext 0 ''flow'' True world0)) ! 0 = unbuilt \<and>
   image_name (heap (snd (ContainerEnvironment_build toy_ext 0 ''flow'' True world0)) ! 0) = None \<and>
   image_tag (heap (snd (ContainerEnvironment_build toy_ext 0 ''flow'' True world0)) ! 0) = None"
proof -
  have alloc: "0 < length (heap world0)" by (simp add: world0_def)
  from build_leaves_receiver [OF toy_build_push alloc] alloc
  show ?thesis by (simp add: world0_def unbuilt_def)
qed

end
